theory Spec2Isabelle
  imports Main
begin

section \<open>Errors\<close>

text \<open>
  Go's \<open>error\<close> values. \<open>ErrInvalidPayload\<close> is \<open>domain.ErrInvalidPayload\<close> of the worker
  domain. What the deploy command or the relational engine may return is not classified by
  any code under review; the two remaining constructors keep the origin of such a failure
  (a rejection of the domain command, a failure of the persistence layer) so that a
  statement can speak about it. \<open>ErrNotFound\<close> is the engine's answer to a single-row
  query with no row.
\<close>

datatype err =
    ErrInvalidPayload
  | ErrNotFound
  | DomainFailure string
  | InfraFailure string

section \<open>The deploy job handler (internal/worker/infra/jobs/deploy/handler.go)\<close>

subsection \<open>Payloads and job data\<close>

text \<open>
  \<open>depldomain.DeploymentCreated\<close> is declared in the deployment domain. The handler
  reads \<open>evt.ID.AppID()\<close>, \<open>evt.ID.DeploymentNumber()\<close> and \<open>evt.Config.ProjectName()\<close>,
  so the event is modelled with exactly those three components.
\<close>

record DeploymentID =
  AppID :: string
  DeploymentNumber :: int

record DeploymentConfig =
  ProjectName :: string

record DeploymentCreated =
  ID :: DeploymentID
  Config :: DeploymentConfig

text \<open>
  \<open>Prepare\<close> takes \<open>payload any\<close> and asserts \<open>payload.(Request)\<close>, where
  \<open>Request\<close> is the handler's type defined from \<open>depldomain.DeploymentCreated\<close>. A
  payload of any other dynamic type is \<open>OtherPayload\<close>, carrying a name of that type.
\<close>

datatype payload =
    Request DeploymentCreated
  | OtherPayload string

text \<open>The handler's own job data: \<open>Data{evt.ID.AppID(), evt.ID.DeploymentNumber()}\<close>.\<close>

record Data =
  DataAppID :: string
  DataDeploymentNumber :: int

text \<open>
  \<open>domain.JobData\<close> is an interface; \<open>Process\<close> asserts \<open>job.Data().(Data)\<close>. A job data
  value of another handler is \<open>OtherData\<close>.
\<close>

datatype JobData =
    DeployData Data
  | OtherData string

record Job =
  JobID :: string
  JobData_of :: JobData


subsection \<open>CanPrepare, CanProcess\<close>

fun CanPrepare :: "payload \<Rightarrow> bool" where
  "CanPrepare (Request _) = True"
| "CanPrepare (OtherPayload _) = False"

fun CanProcess :: "JobData \<Rightarrow> bool" where
  "CanProcess (DeployData _) = True"
| "CanProcess (OtherData _) = False"

subsection \<open>Prepare\<close>




subsection \<open>Process\<close>

text \<open>
  The handler holds a logger and the deploy command, a function from the command to an
  error or nil. What \<open>Process\<close> does beyond returning is recorded in an explicit state: the
  commands handed to the deploy function, in order, and the entries written by
  \<open>logger.Errorw\<close>.
\<close>

record DeployCommand =
  CmdAppID :: string
  CmdDeploymentNumber :: int

record log_entry =
  message :: string
  logged_error :: err
  logged_appid :: string
  logged_deployment :: int

record effects =
  invoked :: "DeployCommand list"
  logged :: "log_entry list"

definition Process :: "(DeployCommand \<Rightarrow> err option) \<Rightarrow> Job \<Rightarrow> effects \<Rightarrow> err option \<times> effects" where
  "Process deploy job fx =
     (case JobData_of job of
        OtherData _ \<Rightarrow> (Some ErrInvalidPayload, fx)
      | DeployData data \<Rightarrow>
          (let cmd = \<lparr>CmdAppID = DataAppID data, CmdDeploymentNumber = DataDeploymentNumber data\<rparr>;
               fx1 = fx\<lparr>invoked := invoked fx @ [cmd]\<rparr>
           in case deploy cmd of
                Some e \<Rightarrow>
                  (None, fx1\<lparr>logged := logged fx1 @
                     [\<lparr>message = ''deploy job has failed'', logged_error = e,
                       logged_appid = DataAppID data,
                       logged_deployment = DataDeploymentNumber data\<rparr>]\<rparr>)
              | None \<Rightarrow> (None, fx1)))"

section \<open>The apps store (package sqlite, appsStore)\<close>

subsection \<open>Values, rows and the store\<close>

text \<open>
  A value of a column or of a statement argument. SQL compares with three truth values; a
  \<open>WHERE\<close> clause keeps a row only when the condition is true, so a comparison with
  \<open>NULL\<close> never selects.
\<close>

datatype sqlval = Null | Text string | Integer int

definition sql_eq :: "sqlval \<Rightarrow> sqlval \<Rightarrow> bool" where
  "sql_eq a b = (a \<noteq> Null \<and> b \<noteq> Null \<and> a = b)"

definition sql_ne :: "sqlval \<Rightarrow> sqlval \<Rightarrow> bool" where
  "sql_ne a b = (a \<noteq> Null \<and> b \<noteq> Null \<and> a \<noteq> b)"

text \<open>
  A row of table \<open>apps\<close>: the fourteen columns that \<open>GetByID\<close> selects. Columns \<open>id\<close> and
  \<open>name\<close> are \<open>apps_id\<close> and \<open>apps_name\<close>.
\<close>

record app_row =
  apps_id :: sqlval
  apps_name :: sqlval
  version_control_url :: sqlval
  version_control_token :: sqlval
  production_target :: sqlval
  production_version :: sqlval
  production_vars :: sqlval
  staging_target :: sqlval
  staging_version :: sqlval
  staging_vars :: sqlval
  cleanup_requested_at :: sqlval
  cleanup_requested_by :: sqlval
  created_at :: sqlval
  created_by :: sqlval

text \<open>
  A row of table \<open>targets\<close>: the two columns the queries of this store read, \<open>id\<close> and
  \<open>cleanup_requested_at\<close>.
\<close>

record target_row =
  targets_id :: sqlval
  targets_cleanup_requested_at :: sqlval

text \<open>
  The database behind \<open>s.db\<close>: the rows of both tables, in insertion order; the condition
  of the engine (\<open>fault\<close>: when set, every statement sent to the engine fails with that
  error); the number of statements sent so far. No constraint of the schema is modelled: the
  schema is not part of the sources.
\<close>

record store =
  apps :: "app_row list"
  targets :: "target_row list"
  fault :: "err option"
  round_trips :: nat

definition round_trip :: "store \<Rightarrow> store" where
  "round_trip s = s\<lparr>round_trips := Suc (round_trips s)\<rparr>"

text \<open>
  Modelled from the spec: \<open>builder.Query(...).One\<close> is not in the sources. It sends the
  query, one round trip, and maps the first row of the result; the specification has a
  lookup that finds no row fail with not-found, and an engine failure come back as the
  error. The rows of the result are computed by the caller from the text of its query.
\<close>

definition One :: "store \<Rightarrow> 'r list \<Rightarrow> (err + 'r) \<times> store" where
  "One s rows =
     (case fault s of
        Some e \<Rightarrow> (Inl e, round_trip s)
      | None \<Rightarrow>
          (case rows of
             [] \<Rightarrow> (Inl ErrNotFound, round_trip s)
           | r # _ \<Rightarrow> (Inr r, round_trip s)))"

subsection \<open>Domain values read by the store\<close>

text \<open>
  \<open>domain.EnvironmentConfig\<close>, with the accessors \<open>Target()\<close>, \<open>Version()\<close> and \<open>Vars()\<close>
  (an optional value). The declarations are outside the sources; the components are the
  ones the specification lists.
\<close>

record EnvironmentConfig =
  Target :: string
  Version :: int
  Vars :: "string option"

text \<open>
  Modelled from the spec: \<open>domain.EnvironmentConfigRequirement\<close> and its constructor
  \<open>domain.NewEnvironmentConfigRequirement\<close> are not in the sources. The requirement "pairs
  a desired EnvironmentConfig with two booleans: target-exists, name-available".
\<close>

record EnvironmentConfigRequirement =
  req_config :: EnvironmentConfig
  target_exists :: bool
  name_available :: bool

definition NewEnvironmentConfigRequirement ::
  "EnvironmentConfig \<Rightarrow> bool \<Rightarrow> bool \<Rightarrow> EnvironmentConfigRequirement" where
  "NewEnvironmentConfigRequirement c targetFound available =
     \<lparr>req_config = c, target_exists = targetFound, name_available = available\<rparr>"

text \<open>Go's zero value \<open>domain.EnvironmentConfigRequirement{}\<close>.\<close>

definition zero_requirement :: EnvironmentConfigRequirement where
  "zero_requirement =
     \<lparr>req_config = \<lparr>Target = [], Version = 0, Vars = None\<rparr>,
      target_exists = False, name_available = False\<rparr>"

definition opt_text :: "string option \<Rightarrow> sqlval" where
  "opt_text v = (case v of None \<Rightarrow> Null | Some t \<Rightarrow> Text t)"

subsection \<open>CheckAppNamingAvailability\<close>

record appNamingResult =
  productionAvailable :: bool
  productionTargetFound :: bool
  stagingAvailable :: bool
  stagingTargetFound :: bool

text \<open>
  \<open>EXISTS(SELECT 1 FROM targets WHERE id = ? AND cleanup_requested_at IS NULL)\<close>, the
  second and fourth column of both queries.
\<close>

definition target_usable :: "store \<Rightarrow> string \<Rightarrow> bool" where
  "target_usable s t =
     (filter (\<lambda>r. sql_eq (targets_id r) (Text t) \<and> targets_cleanup_requested_at r = Null)
        (targets s) \<noteq> [])"

text \<open>
  The query has no \<open>FROM\<close> clause of its own: its result is one row of four booleans.
  The results are the triple of the Go function and the store after the round trip.
\<close>

definition CheckAppNamingAvailability ::
  "store \<Rightarrow> string \<Rightarrow> EnvironmentConfig \<Rightarrow> EnvironmentConfig \<Rightarrow>
   (EnvironmentConfigRequirement \<times> EnvironmentConfigRequirement \<times> err option) \<times> store" where
  "CheckAppNamingAvailability s name production staging =
     (let row =
            \<lparr>productionAvailable =
               (filter (\<lambda>a. sql_eq (apps_name a) (Text name) \<and>
                             sql_eq (production_target a) (Text (Target production))) (apps s) = []),
             productionTargetFound = target_usable s (Target production),
             stagingAvailable =
               (filter (\<lambda>a. sql_eq (apps_name a) (Text name) \<and>
                             sql_eq (staging_target a) (Text (Target staging))) (apps s) = []),
             stagingTargetFound = target_usable s (Target staging)\<rparr>
      in case One s [row] of
           (Inl e, s') \<Rightarrow> ((zero_requirement, zero_requirement, Some e), s')
         | (Inr r, s') \<Rightarrow>
             ((NewEnvironmentConfigRequirement production
                 (productionTargetFound r) (productionAvailable r),
               NewEnvironmentConfigRequirement staging
                 (stagingTargetFound r) (stagingAvailable r),
               None), s'))"

subsection \<open>CheckAppNamingAvailabilityByID\<close>

text \<open>
  The row computed for one \<open>src\<close> of \<open>FROM apps src WHERE src.id = ?\<close>: the columns of a
  slot that is present are the two subqueries, those of an absent slot are \<open>0\<close>.
\<close>

definition naming_by_id_row ::
  "store \<Rightarrow> EnvironmentConfig option \<Rightarrow> EnvironmentConfig option \<Rightarrow> app_row \<Rightarrow> appNamingResult" where
  "naming_by_id_row s production staging src =
     \<lparr>productionAvailable =
        (case production of
           Some productionValue \<Rightarrow>
             (filter (\<lambda>a. sql_ne (apps_id a) (apps_id src) \<and>
                           sql_eq (apps_name a) (apps_name src) \<and>
                           sql_eq (production_target a) (Text (Target productionValue)))
                (apps s) = [])
         | None \<Rightarrow> False),
      productionTargetFound =
        (case production of
           Some productionValue \<Rightarrow> target_usable s (Target productionValue)
         | None \<Rightarrow> False),
      stagingAvailable =
        (case staging of
           Some stagingValue \<Rightarrow>
             (filter (\<lambda>a. sql_ne (apps_id a) (apps_id src) \<and>
                           sql_eq (apps_name a) (apps_name src) \<and>
                           sql_eq (staging_target a) (Text (Target stagingValue)))
                (apps s) = [])
         | None \<Rightarrow> False),
      stagingTargetFound =
        (case staging of
           Some stagingValue \<Rightarrow> target_usable s (Target stagingValue)
         | None \<Rightarrow> False)\<rparr>"

definition CheckAppNamingAvailabilityByID ::
  "store \<Rightarrow> string \<Rightarrow> EnvironmentConfig option \<Rightarrow> EnvironmentConfig option \<Rightarrow>
   (EnvironmentConfigRequirement \<times> EnvironmentConfigRequirement \<times> err option) \<times> store" where
  "CheckAppNamingAvailabilityByID s ident production staging =
     (if production = None \<and> staging = None
      then ((zero_requirement, zero_requirement, None), s)
      else
        (case One s (map (naming_by_id_row s production staging)
                       (filter (\<lambda>src. sql_eq (apps_id src) (Text ident)) (apps s))) of
           (Inl e, s') \<Rightarrow> ((zero_requirement, zero_requirement, Some e), s')
         | (Inr r, s') \<Rightarrow>
             (((case production of
                  Some productionValue \<Rightarrow>
                    NewEnvironmentConfigRequirement productionValue
                      (productionTargetFound r) (productionAvailable r)
                | None \<Rightarrow> zero_requirement),
               (case staging of
                  Some stagingValue \<Rightarrow>
                    NewEnvironmentConfigRequirement stagingValue
                      (stagingTargetFound r) (stagingAvailable r)
                | None \<Rightarrow> zero_requirement),
               None), s')))"

subsection \<open>Events\<close>

text \<open>
  Modelled from the spec: \<open>domain.Environment\<close> is declared outside the sources; \<open>Write\<close>
  converts it with \<open>string(evt.Environment)\<close>. The specification has it a "closed,
  code-controlled enumeration {production, staging}".
\<close>

datatype Environment = Production | Staging

fun Environment_string :: "Environment \<Rightarrow> string" where
  "Environment_string Production = ''production''"
| "Environment_string Staging = ''staging''"

text \<open>
  The audit value behind \<open>evt.Created\<close> and \<open>evt.Requested\<close> (\<open>At()\<close>, \<open>By()\<close>) and the
  version-control configuration behind \<open>evt.Config\<close> (\<open>Url()\<close>, \<open>Token()\<close>, the token
  optional).
\<close>

record Action =
  At :: int
  By :: string

record VersionControl =
  Url :: string
  Token :: "string option"

text \<open>
  The events \<open>Write\<close> switches on, each with the fields its case reads, and
  \<open>OtherEvent\<close> for an event of any other type, carrying a name of that type.
\<close>

datatype event =
    AppCreated string string EnvironmentConfig EnvironmentConfig Action
  | AppEnvChanged string Environment EnvironmentConfig
  | AppVersionControlConfigured string VersionControl
  | AppVersionControlRemoved string
  | AppCleanupRequested string Action
  | AppDeleted string
  | OtherEvent string

subsection \<open>GetByID\<close>

text \<open>
  \<open>domain.App\<close> as \<open>domain.AppFrom\<close> rebuilds it from the selected row, and as \<open>Write\<close>
  reads it: the state the row holds and the events not yet persisted.
\<close>

record App =
  app_state :: app_row
  app_events :: "event list"

definition GetByID :: "store \<Rightarrow> string \<Rightarrow> (err + App) \<times> store" where
  "GetByID s ident =
     (case One s (filter (\<lambda>a. sql_eq (apps_id a) (Text ident)) (apps s)) of
        (Inl e, s') \<Rightarrow> (Inl e, s')
      | (Inr r, s') \<Rightarrow> (Inr \<lparr>app_state = r, app_events = []\<rparr>, s'))"

subsection \<open>Statements of the builder\<close>

text \<open>
  Modelled from the spec: the builder (\<open>builder.Insert\<close>, \<open>builder.Update\<close>,
  \<open>builder.Command\<close> and their \<open>Exec\<close>) is not in the sources. The specification has
  the events become an insert of a new row with the initial columns, an update of the
  named columns of the row of the aggregate's id, and the removal of that row; a failure
  of the engine comes back as the error.

  \<open>builder.Values\<close> maps column names to values. Assigning a column of a row goes by the
  name of the column, as the statement built from the names does; a name that is no column
  of \<open>apps\<close> makes the engine refuse the statement.
\<close>

definition apps_columns :: "string list" where
  "apps_columns =
     [''id'', ''name'', ''version_control_url'', ''version_control_token'',
      ''production_target'', ''production_version'', ''production_vars'',
      ''staging_target'', ''staging_version'', ''staging_vars'',
      ''cleanup_requested_at'', ''cleanup_requested_by'', ''created_at'', ''created_by'']"

definition set_column :: "string \<Rightarrow> sqlval \<Rightarrow> app_row \<Rightarrow> app_row" where
  "set_column c v r =
     (if c = ''id'' then r\<lparr>apps_id := v\<rparr>
      else if c = ''name'' then r\<lparr>apps_name := v\<rparr>
      else if c = ''version_control_url'' then r\<lparr>version_control_url := v\<rparr>
      else if c = ''version_control_token'' then r\<lparr>version_control_token := v\<rparr>
      else if c = ''production_target'' then r\<lparr>production_target := v\<rparr>
      else if c = ''production_version'' then r\<lparr>production_version := v\<rparr>
      else if c = ''production_vars'' then r\<lparr>production_vars := v\<rparr>
      else if c = ''staging_target'' then r\<lparr>staging_target := v\<rparr>
      else if c = ''staging_version'' then r\<lparr>staging_version := v\<rparr>
      else if c = ''staging_vars'' then r\<lparr>staging_vars := v\<rparr>
      else if c = ''cleanup_requested_at'' then r\<lparr>cleanup_requested_at := v\<rparr>
      else if c = ''cleanup_requested_by'' then r\<lparr>cleanup_requested_by := v\<rparr>
      else if c = ''created_at'' then r\<lparr>created_at := v\<rparr>
      else if c = ''created_by'' then r\<lparr>created_by := v\<rparr>
      else r)"

fun set_columns :: "(string \<times> sqlval) list \<Rightarrow> app_row \<Rightarrow> app_row" where
  "set_columns [] r = r"
| "set_columns ((c, v) # cvs) r = set_columns cvs (set_column c v r)"

definition null_row :: app_row where
  "null_row =
     \<lparr>apps_id = Null, apps_name = Null, version_control_url = Null,
      version_control_token = Null, production_target = Null, production_version = Null,
      production_vars = Null, staging_target = Null, staging_version = Null,
      staging_vars = Null, cleanup_requested_at = Null, cleanup_requested_by = Null,
      created_at = Null, created_by = Null\<rparr>"

definition known_columns :: "(string \<times> sqlval) list \<Rightarrow> bool" where
  "known_columns vals = list_all (\<lambda>cv. fst cv \<in> set apps_columns) vals"

text \<open>
  \<open>builder.Insert("apps", values).Exec\<close>: one round trip; the new row holds the given
  values and \<open>NULL\<close> elsewhere.
\<close>

definition Insert_apps :: "store \<Rightarrow> (string \<times> sqlval) list \<Rightarrow> err option \<times> store" where
  "Insert_apps s vals =
     (case fault s of
        Some e \<Rightarrow> (Some e, round_trip s)
      | None \<Rightarrow>
          (if known_columns vals
           then (None, round_trip (s\<lparr>apps := apps s @ [set_columns vals null_row]\<rparr>))
           else (Some (InfraFailure ''no such column''), round_trip s)))"

text \<open>\<open>builder.Update("apps", values).F("WHERE id = ?", id).Exec\<close>.\<close>

definition Update_apps :: "store \<Rightarrow> (string \<times> sqlval) list \<Rightarrow> string \<Rightarrow> err option \<times> store" where
  "Update_apps s vals ident =
     (case fault s of
        Some e \<Rightarrow> (Some e, round_trip s)
      | None \<Rightarrow>
          (if known_columns vals
           then (None, round_trip (s\<lparr>apps :=
                   map (\<lambda>a. if sql_eq (apps_id a) (Text ident) then set_columns vals a else a)
                     (apps s)\<rparr>))
           else (Some (InfraFailure ''no such column''), round_trip s)))"

text \<open>\<open>builder.Command("DELETE FROM apps WHERE id = ?", id).Exec\<close>.\<close>

definition Delete_apps :: "store \<Rightarrow> string \<Rightarrow> err option \<times> store" where
  "Delete_apps s ident =
     (case fault s of
        Some e \<Rightarrow> (Some e, round_trip s)
      | None \<Rightarrow>
          (None, round_trip (s\<lparr>apps :=
             filter (\<lambda>a. \<not> sql_eq (apps_id a) (Text ident)) (apps s)\<rparr>)))"

subsection \<open>Write\<close>

text \<open>The values of the \<open>AppEnvChanged\<close> case, the column names composed as the code does.\<close>

definition AppEnvChanged_values :: "Environment \<Rightarrow> EnvironmentConfig \<Rightarrow> (string \<times> sqlval) list" where
  "AppEnvChanged_values env c =
     [(Environment_string env @ ''_target'', Text (Target c)),
      (Environment_string env @ ''_version'', Integer (Version c)),
      (Environment_string env @ ''_vars'', opt_text (Vars c))]"

text \<open>
  The function \<open>Write\<close> hands to \<open>sqlite.WriteAndDispatch\<close>: the type switch on the event,
  one case per event, \<open>default\<close> last.
\<close>

fun Write_event :: "store \<Rightarrow> event \<Rightarrow> err option \<times> store" where
  "Write_event s (AppCreated ident name production staging created) =
     Insert_apps s
       [(''id'', Text ident),
        (''name'', Text name),
        (''production_target'', Text (Target production)),
        (''production_version'', Integer (Version production)),
        (''production_vars'', opt_text (Vars production)),
        (''staging_target'', Text (Target staging)),
        (''staging_version'', Integer (Version staging)),
        (''staging_vars'', opt_text (Vars staging)),
        (''created_at'', Integer (At created)),
        (''created_by'', Text (By created))]"
| "Write_event s (AppEnvChanged ident env c) =
     Update_apps s (AppEnvChanged_values env c) ident"
| "Write_event s (AppVersionControlConfigured ident vc) =
     Update_apps s
       [(''version_control_url'', Text (Url vc)),
        (''version_control_token'', opt_text (Token vc))] ident"
| "Write_event s (AppVersionControlRemoved ident) =
     Update_apps s
       [(''version_control_url'', Null),
        (''version_control_token'', Null)] ident"
| "Write_event s (AppCleanupRequested ident requested) =
     Update_apps s
       [(''cleanup_requested_at'', Integer (At requested)),
        (''cleanup_requested_by'', Text (By requested))] ident"
| "Write_event s (AppDeleted ident) = Delete_apps s ident"
| "Write_event s (OtherEvent _) = (None, s)"

text \<open>
  Modelled from the spec: \<open>sqlite.WriteAndDispatch\<close> is not in the sources. For each
  aggregate it reads the pending events in emission order and applies the given function
  to each inside one transaction; "if any mutation fails, abort the whole transaction;
  none of the batch's effects may be visible"; after the commit every persisted event is
  dispatched in emission order. The result is the error, the store, and the events
  dispatched.
\<close>

fun persist :: "(store \<Rightarrow> event \<Rightarrow> err option \<times> store) \<Rightarrow> store \<Rightarrow> event list \<Rightarrow> err option \<times> store" where
  "persist f s [] = (None, s)"
| "persist f s (e # es) =
     (case f s e of
        (Some x, s') \<Rightarrow> (Some x, s')
      | (None, s') \<Rightarrow> persist f s' es)"

definition WriteAndDispatch ::
  "store \<Rightarrow> App list \<Rightarrow> (store \<Rightarrow> event \<Rightarrow> err option \<times> store) \<Rightarrow> err option \<times> store \<times> event list" where
  "WriteAndDispatch s aggregates f =
     (case persist f s (concat (map app_events aggregates)) of
        (Some x, s') \<Rightarrow> (Some x, s\<lparr>round_trips := round_trips s'\<rparr>, [])
      | (None, s') \<Rightarrow> (None, s', concat (map app_events aggregates)))"

definition Write :: "store \<Rightarrow> App list \<Rightarrow> err option \<times> store \<times> event list" where
  "Write s aggregates = WriteAndDispatch s aggregates Write_event"

subsection \<open>Reading the results of the checks\<close>

text \<open>
  Both checks return \<open>(productionRequirement, stagingRequirement, err)\<close>; here with the
  store after the call.
\<close>

definition production_requirement ::
  "(EnvironmentConfigRequirement \<times> EnvironmentConfigRequirement \<times> err option) \<times> store \<Rightarrow>
   EnvironmentConfigRequirement" where
  "production_requirement r = fst (fst r)"

definition staging_requirement ::
  "(EnvironmentConfigRequirement \<times> EnvironmentConfigRequirement \<times> err option) \<times> store \<Rightarrow>
   EnvironmentConfigRequirement" where
  "staging_requirement r = fst (snd (fst r))"

subsection \<open>Example values\<close>

text \<open>Short names for the concrete configurations, rows and stores of the examples.\<close>

abbreviation example_config :: "string \<Rightarrow> EnvironmentConfig" where
  "example_config t \<equiv> \<lparr>Target = t, Version = 1, Vars = None\<rparr>"

abbreviation example_app :: "string \<Rightarrow> string \<Rightarrow> string \<Rightarrow> string \<Rightarrow> app_row" where
  "example_app i n p q \<equiv>
     \<lparr>apps_id = Text i, apps_name = Text n, version_control_url = Null,
      version_control_token = Null, production_target = Text p,
      production_version = Integer 1, production_vars = Null,
      staging_target = Text q, staging_version = Integer 1, staging_vars = Null,
      cleanup_requested_at = Null, cleanup_requested_by = Null,
      created_at = Integer 0, created_by = Text ''user''\<rparr>"

abbreviation example_target :: "string \<Rightarrow> sqlval \<Rightarrow> target_row" where
  "example_target t c \<equiv> \<lparr>targets_id = Text t, targets_cleanup_requested_at = c\<rparr>"

abbreviation example_store :: "app_row list \<Rightarrow> target_row list \<Rightarrow> store" where
  "example_store as ts \<equiv> \<lparr>apps = as, targets = ts, fault = None, round_trips = 0\<rparr>"

section \<open>Properties of the deploy job handler\<close>




text \<open>
  On well-typed data \<open>Process\<close> hands one command to the deploy function and returns nil,
  whatever the deploy function returns.
\<close>

lemma Process_well_typed_returns_nil:
  "JobData_of job = DeployData d \<Longrightarrow>
   fst (Process deploy job fx) = None \<and>
   invoked (snd (Process deploy job fx)) =
     invoked fx @ [\<lparr>CmdAppID = DataAppID d, CmdDeploymentNumber = DataDeploymentNumber d\<rparr>]"
  by (simp add: Process_def Let_def split: option.splits)

text \<open>
  C2. A domain failure of the deploy command is to be logged and swallowed, a failure of
  the persistence layer is to be returned. \<open>Process\<close> evaluated on a job with well-typed
  data and a deploy command that fails with an error of the persistence layer: the command
  is invoked once, the failure is logged, and the result is nil, not the error.
\<close>

theorem Process_swallows_infra_failure:
  "Process (\<lambda>cmd. Some (InfraFailure ''database is locked''))
     \<lparr>JobID = ''job-1'', JobData_of = DeployData \<lparr>DataAppID = ''app'', DataDeploymentNumber = 1\<rparr>\<rparr>
     \<lparr>invoked = [], logged = []\<rparr>
   = (None,
      \<lparr>invoked = [\<lparr>CmdAppID = ''app'', CmdDeploymentNumber = 1\<rparr>],
       logged = [\<lparr>message = ''deploy job has failed'',
                  logged_error = InfraFailure ''database is locked'',
                  logged_appid = ''app'', logged_deployment = 1\<rparr>]\<rparr>)"
  by (simp add: Process_def)

text \<open>
  C3. A job whose data is not the deploy handler's \<open>Data\<close> makes \<open>Process\<close> return the
  invalid-payload error at once: the deploy command is not invoked and nothing is logged,
  the recorded effects are the ones before the call.
\<close>

theorem Process_invalid_payload:
  "\<not> CanProcess (JobData_of job) \<Longrightarrow> Process deploy job fx = (Some ErrInvalidPayload, fx)"
  by (cases "JobData_of job") (simp_all add: Process_def)

theorem Process_invalid_payload_witness:
  "\<not> CanProcess (JobData_of \<lparr>JobID = ''job-2'', JobData_of = OtherData ''cleanup''\<rparr>)
   \<and> Process (\<lambda>cmd. Some (InfraFailure ''unreachable''))
       \<lparr>JobID = ''job-2'', JobData_of = OtherData ''cleanup''\<rparr> \<lparr>invoked = [], logged = []\<rparr>
     = (Some ErrInvalidPayload, \<lparr>invoked = [], logged = []\<rparr>)"
  using Process_invalid_payload
    [of "\<lparr>JobID = ''job-2'', JobData_of = OtherData ''cleanup''\<rparr>"
        "\<lambda>cmd. Some (InfraFailure ''unreachable'')" "\<lparr>invoked = [], logged = []\<rparr>"]
  by simp

section \<open>Properties of the apps store\<close>

subsection \<open>The single-row query\<close>

lemma One_Inr_D:
  "One s rows = (Inr r, s') \<Longrightarrow> (\<exists>rest. rows = r # rest) \<and> fault s = None \<and> s' = round_trip s"
  by (auto simp add: One_def split: option.splits list.splits)

lemma ByID_success:
  assumes "fault s = None"
    and "filter (\<lambda>a. sql_eq (apps_id a) (Text ident)) (apps s) = src # rest"
    and "po \<noteq> None \<or> so \<noteq> None"
  shows "CheckAppNamingAvailabilityByID s ident po so =
           (((case po of Some pv \<Rightarrow> NewEnvironmentConfigRequirement pv
                    (productionTargetFound (naming_by_id_row s po so src))
                    (productionAvailable (naming_by_id_row s po so src))
               | None \<Rightarrow> zero_requirement),
             (case so of Some sv \<Rightarrow> NewEnvironmentConfigRequirement sv
                    (stagingTargetFound (naming_by_id_row s po so src))
                    (stagingAvailable (naming_by_id_row s po so src))
               | None \<Rightarrow> zero_requirement),
             None), round_trip s)"
  using assms by (auto simp add: CheckAppNamingAvailabilityByID_def One_def)

lemma Check_production_available:
  "name_available (production_requirement (CheckAppNamingAvailability s name p q)) =
     (fault s = None \<and>
      filter (\<lambda>a. sql_eq (apps_name a) (Text name) \<and>
                    sql_eq (production_target a) (Text (Target p))) (apps s) = [])"
  by (simp add: CheckAppNamingAvailability_def One_def production_requirement_def
      NewEnvironmentConfigRequirement_def zero_requirement_def split: option.splits)


subsection \<open>The update path does not count the own row\<close>

text \<open>
  C4. \<open>CheckAppNamingAvailabilityByID\<close> on an application that is in the store, \<open>src\<close>
  being the row the query reads for its id: in every state of the tables, the name is
  reported available for a slot exactly when no row with another id binds the name of
  \<open>src\<close> to the target asked for in that slot. The row of the application itself never
  counts, whatever target it holds; an application that keeps its name and target is not
  rejected against itself.
\<close>

theorem CheckAppNamingAvailabilityByID_own_row_excluded:
  assumes "fault s = None"
    and "filter (\<lambda>a. sql_eq (apps_id a) (Text ident)) (apps s) = src # rest"
  shows "name_available (production_requirement
           (CheckAppNamingAvailabilityByID s ident (Some p) maybe_staging))
         = (\<forall>a\<in>set (apps s). sql_ne (apps_id a) (apps_id src) \<longrightarrow>
              \<not> (sql_eq (apps_name a) (apps_name src) \<and>
                 sql_eq (production_target a) (Text (Target p))))
       \<and> name_available (staging_requirement
           (CheckAppNamingAvailabilityByID s ident maybe_production (Some q)))
         = (\<forall>a\<in>set (apps s). sql_ne (apps_id a) (apps_id src) \<longrightarrow>
              \<not> (sql_eq (apps_name a) (apps_name src) \<and>
                 sql_eq (staging_target a) (Text (Target q))))"
proof -
  have pa: "productionAvailable (naming_by_id_row s (Some p) maybe_staging src)
      = (\<forall>a\<in>set (apps s). sql_ne (apps_id a) (apps_id src) \<longrightarrow>
              \<not> (sql_eq (apps_name a) (apps_name src) \<and>
                 sql_eq (production_target a) (Text (Target p))))"
    by (auto simp add: naming_by_id_row_def filter_empty_conv)
  have sa: "stagingAvailable (naming_by_id_row s maybe_production (Some q) src)
      = (\<forall>a\<in>set (apps s). sql_ne (apps_id a) (apps_id src) \<longrightarrow>
              \<not> (sql_eq (apps_name a) (apps_name src) \<and>
                 sql_eq (staging_target a) (Text (Target q))))"
    by (auto simp add: naming_by_id_row_def filter_empty_conv)
  have r1: "name_available (production_requirement
           (CheckAppNamingAvailabilityByID s ident (Some p) maybe_staging))
         = productionAvailable (naming_by_id_row s (Some p) maybe_staging src)"
    using ByID_success [OF assms(1) assms(2), of "Some p" maybe_staging]
    by (simp add: production_requirement_def NewEnvironmentConfigRequirement_def)
  have r2: "name_available (staging_requirement
           (CheckAppNamingAvailabilityByID s ident maybe_production (Some q)))
         = stagingAvailable (naming_by_id_row s maybe_production (Some q) src)"
    using ByID_success [OF assms(1) assms(2), of maybe_production "Some q"]
    by (simp add: staging_requirement_def NewEnvironmentConfigRequirement_def)
  show ?thesis
    by (simp only: r1 r2 pa sa)
qed

text \<open>
  Application \<open>a1\<close> holds name \<open>n1\<close> on targets \<open>t1\<close> and \<open>t2\<close> and asks for the same
  targets again, next to an application of another name on the same targets.
\<close>

theorem CheckAppNamingAvailabilityByID_own_row_excluded_witness:
  "filter (\<lambda>a. sql_eq (apps_id a) (Text ''a1''))
     (apps (example_store [example_app ''a1'' ''n1'' ''t1'' ''t2'', example_app ''a2'' ''n2'' ''t1'' ''t2''] []))
     = [example_app ''a1'' ''n1'' ''t1'' ''t2'']
   \<and> name_available (production_requirement (CheckAppNamingAvailabilityByID
        (example_store [example_app ''a1'' ''n1'' ''t1'' ''t2'', example_app ''a2'' ''n2'' ''t1'' ''t2''] [])
        ''a1'' (Some (example_config ''t1'')) None))
   \<and> name_available (staging_requirement (CheckAppNamingAvailabilityByID
        (example_store [example_app ''a1'' ''n1'' ''t1'' ''t2'', example_app ''a2'' ''n2'' ''t1'' ''t2''] [])
        ''a1'' None (Some (example_config ''t2''))))"
proof -
  let ?s = "example_store [example_app ''a1'' ''n1'' ''t1'' ''t2'', example_app ''a2'' ''n2'' ''t1'' ''t2''] []"
  let ?src = "example_app ''a1'' ''n1'' ''t1'' ''t2''"
  have h1: "fault ?s = None" by simp
  have h2: "filter (\<lambda>a. sql_eq (apps_id a) (Text ''a1'')) (apps ?s) = ?src # []"
    by (simp add: sql_eq_def)
  show ?thesis
    using h2 CheckAppNamingAvailabilityByID_own_row_excluded
      [OF h1 h2, of "example_config ''t1''" None None "example_config ''t2''"]
    by (simp add: sql_eq_def sql_ne_def)
qed

subsection \<open>Targets marked for cleanup\<close>

lemma target_usable_cleanup:
  "\<forall>t\<in>set (targets s). sql_eq (targets_id t) (Text T) \<longrightarrow> targets_cleanup_requested_at t \<noteq> Null
   \<Longrightarrow> \<not> target_usable s T"
  by (auto simp add: target_usable_def filter_empty_conv)

lemma naming_by_id_row_target_found:
  "\<not> target_usable s (Target c) \<Longrightarrow>
   \<not> productionTargetFound (naming_by_id_row s (Some c) so src)
   \<and> \<not> stagingTargetFound (naming_by_id_row s po (Some c) src)"
  by (simp add: naming_by_id_row_def)

text \<open>
  C5. When every row of \<open>targets\<close> with id \<open>T\<close> has a non-null \<open>cleanup_requested_at\<close>,
  both checks report target-exists false for a configuration bound to \<open>T\<close>, in the
  production slot as in the staging slot, for every name, every other slot and every state
  of table \<open>apps\<close>: the availability of the name plays no part.
\<close>

theorem cleanup_pending_target_not_found:
  assumes "\<forall>t\<in>set (targets s). sql_eq (targets_id t) (Text T) \<longrightarrow> targets_cleanup_requested_at t \<noteq> Null"
    and "Target c = T"
  shows "\<not> target_exists (production_requirement (CheckAppNamingAvailability s name c other))
       \<and> \<not> target_exists (staging_requirement (CheckAppNamingAvailability s name other c))
       \<and> \<not> target_exists (production_requirement (CheckAppNamingAvailabilityByID s ident (Some c) maybe_other))
       \<and> \<not> target_exists (staging_requirement (CheckAppNamingAvailabilityByID s ident maybe_other (Some c)))"
proof -
  have u: "\<not> target_usable s (Target c)"
    using assms target_usable_cleanup by blast
  have a: "\<not> target_exists (production_requirement (CheckAppNamingAvailability s name c other))"
    using u by (simp add: CheckAppNamingAvailability_def One_def production_requirement_def
        NewEnvironmentConfigRequirement_def zero_requirement_def split: option.splits)
  have b: "\<not> target_exists (staging_requirement (CheckAppNamingAvailability s name other c))"
    using u by (simp add: CheckAppNamingAvailability_def One_def staging_requirement_def
        NewEnvironmentConfigRequirement_def zero_requirement_def split: option.splits)
  have c: "\<not> target_exists (production_requirement (CheckAppNamingAvailabilityByID s ident (Some c) maybe_other))"
  proof (cases "One s (map (naming_by_id_row s (Some c) maybe_other)
                  (filter (\<lambda>src. sql_eq (apps_id src) (Text ident)) (apps s)))")
    case (Pair x s')
    show ?thesis
    proof (cases x)
      case (Inl e)
      with Pair show ?thesis
        by (simp add: CheckAppNamingAvailabilityByID_def production_requirement_def
            zero_requirement_def)
    next
      case (Inr r)
      with Pair obtain src where "r = naming_by_id_row s (Some c) maybe_other src"
        using One_Inr_D by (fastforce simp add: map_eq_Cons_conv)
      with u have "\<not> productionTargetFound r"
        using naming_by_id_row_target_found by blast
      with Pair Inr show ?thesis
        by (simp add: CheckAppNamingAvailabilityByID_def production_requirement_def
            NewEnvironmentConfigRequirement_def)
    qed
  qed
  have d: "\<not> target_exists (staging_requirement (CheckAppNamingAvailabilityByID s ident maybe_other (Some c)))"
  proof (cases "One s (map (naming_by_id_row s maybe_other (Some c))
                  (filter (\<lambda>src. sql_eq (apps_id src) (Text ident)) (apps s)))")
    case (Pair x s')
    show ?thesis
    proof (cases x)
      case (Inl e)
      with Pair show ?thesis
        by (simp add: CheckAppNamingAvailabilityByID_def staging_requirement_def
            zero_requirement_def)
    next
      case (Inr r)
      with Pair obtain src where "r = naming_by_id_row s maybe_other (Some c) src"
        using One_Inr_D by (fastforce simp add: map_eq_Cons_conv)
      with u have "\<not> stagingTargetFound r"
        using naming_by_id_row_target_found by blast
      with Pair Inr show ?thesis
        by (simp add: CheckAppNamingAvailabilityByID_def staging_requirement_def
            NewEnvironmentConfigRequirement_def)
    qed
  qed
  show ?thesis using a b c d by blast
qed

text \<open>
  Target \<open>t1\<close> is marked for cleanup and no application exists: the name is available and
  the target is reported as not existing.
\<close>

theorem cleanup_pending_target_not_found_witness:
  "targets (example_store [] [example_target ''t1'' (Integer 5)])
     = [\<lparr>targets_id = Text ''t1'', targets_cleanup_requested_at = Integer 5\<rparr>]
   \<and> \<not> target_exists (production_requirement (CheckAppNamingAvailability
          (example_store [] [example_target ''t1'' (Integer 5)]) ''n1''
          (example_config ''t1'') (example_config ''t2'')))
   \<and> name_available (production_requirement (CheckAppNamingAvailability
          (example_store [] [example_target ''t1'' (Integer 5)]) ''n1''
          (example_config ''t1'') (example_config ''t2'')))
   \<and> \<not> target_exists (staging_requirement (CheckAppNamingAvailabilityByID
          (example_store [] [example_target ''t1'' (Integer 5)]) ''a1''
          None (Some (example_config ''t1''))))"
proof -
  let ?s = "example_store [] [example_target ''t1'' (Integer 5)]"
  have h1: "\<forall>t\<in>set (targets ?s).
       sql_eq (targets_id t) (Text ''t1'') \<longrightarrow> targets_cleanup_requested_at t \<noteq> Null"
    by simp
  have h2: "Target (example_config ''t1'') = ''t1''" by simp
  have av: "name_available (production_requirement (CheckAppNamingAvailability ?s ''n1''
          (example_config ''t1'') (example_config ''t2'')))"
    by (simp add: Check_production_available)
  show ?thesis
    using av cleanup_pending_target_not_found [OF h1 h2, of "''n1''" "example_config ''t2''" "''a1''" None]
    by simp
qed

subsection \<open>Creation, then the creation check\<close>

lemma Write_single:
  "Write s [\<lparr>app_state = st, app_events = [e]\<rparr>] = (None, s', evs) \<Longrightarrow>
   Write_event s e = (None, s') \<and> evs = [e]"
  by (auto simp add: Write_def WriteAndDispatch_def split: prod.splits option.splits)





subsection \<open>Events the writer does not know\<close>

text \<open>
  C7. For an event that is none of AppCreated, AppEnvChanged, AppVersionControlConfigured,
  AppVersionControlRemoved, AppCleanupRequested and AppDeleted, the function of \<open>Write\<close>
  returns nil and the store is the one before, rows and round trips; a \<open>Write\<close> of an
  aggregate holding just that event succeeds and leaves the store as it was.
\<close>

theorem Write_event_unknown_variant:
  assumes "\<forall>i n p q c. e \<noteq> AppCreated i n p q c"
    and "\<forall>i v c. e \<noteq> AppEnvChanged i v c"
    and "\<forall>i vc. e \<noteq> AppVersionControlConfigured i vc"
    and "\<forall>i. e \<noteq> AppVersionControlRemoved i"
    and "\<forall>i r. e \<noteq> AppCleanupRequested i r"
    and "\<forall>i. e \<noteq> AppDeleted i"
  shows "Write_event s e = (None, s)
       \<and> Write s [\<lparr>app_state = st, app_events = [e]\<rparr>] = (None, s, [e])"
  using assms by (cases e) (simp_all add: Write_def WriteAndDispatch_def)

theorem Write_event_unknown_variant_witness:
  "Write_event (example_store [example_app ''a1'' ''n1'' ''t1'' ''t2''] []) (OtherEvent ''DeploymentCreated'')
     = (None, example_store [example_app ''a1'' ''n1'' ''t1'' ''t2''] [])
   \<and> Write (example_store [example_app ''a1'' ''n1'' ''t1'' ''t2''] [])
        [\<lparr>app_state = example_app ''a1'' ''n1'' ''t1'' ''t2'',
          app_events = [OtherEvent ''DeploymentCreated'']\<rparr>]
     = (None, example_store [example_app ''a1'' ''n1'' ''t1'' ''t2''] [],
        [OtherEvent ''DeploymentCreated''])"
proof -
  let ?e = "OtherEvent ''DeploymentCreated''"
  have h1: "\<forall>i n p q c. ?e \<noteq> AppCreated i n p q c" by simp
  have h2: "\<forall>i v c. ?e \<noteq> AppEnvChanged i v c" by simp
  have h3: "\<forall>i vc. ?e \<noteq> AppVersionControlConfigured i vc" by simp
  have h4: "\<forall>i. ?e \<noteq> AppVersionControlRemoved i" by simp
  have h5: "\<forall>i r. ?e \<noteq> AppCleanupRequested i r" by simp
  have h6: "\<forall>i. ?e \<noteq> AppDeleted i" by simp
  show ?thesis
    using Write_event_unknown_variant [OF h1 h2 h3 h4 h5 h6,
        of "example_store [example_app ''a1'' ''n1'' ''t1'' ''t2''] []"
           "example_app ''a1'' ''n1'' ''t1'' ''t2''"]
    by blast
qed

subsection \<open>A changed environment\<close>

lemma known_columns_AppEnvChanged: "known_columns (AppEnvChanged_values env c)"
  by (cases env) (simp_all add: known_columns_def AppEnvChanged_values_def apps_columns_def)

lemma set_columns_AppEnvChanged:
  "set_columns (AppEnvChanged_values env c) a =
     (case env of
        Production \<Rightarrow>
          a\<lparr>production_target := Text (Target c),
            production_version := Integer (Version c),
            production_vars := opt_text (Vars c)\<rparr>
      | Staging \<Rightarrow>
          a\<lparr>staging_target := Text (Target c),
            staging_version := Integer (Version c),
            staging_vars := opt_text (Vars c)\<rparr>)"
  by (cases env) (simp_all add: AppEnvChanged_values_def set_column_def)

text \<open>
  C8. For an AppEnvChanged event and an engine that takes the statement, \<open>Write\<close> sets, in
  every row whose id is the event's application id, the target, version and vars columns
  of the event's environment to the values of its configuration; no other column of those
  rows, no other row and no row of \<open>targets\<close> changes. The prefix of the three column
  names is the string of the environment tag, \<open>production\<close> or \<open>staging\<close>.
\<close>

theorem Write_event_AppEnvChanged:
  "fault s = None \<Longrightarrow>
   Write_event s (AppEnvChanged ident env c) =
     (None, s\<lparr>apps := map (\<lambda>a. if sql_eq (apps_id a) (Text ident)
                               then (case env of
                                       Production \<Rightarrow>
                                         a\<lparr>production_target := Text (Target c),
                                           production_version := Integer (Version c),
                                           production_vars := opt_text (Vars c)\<rparr>
                                     | Staging \<Rightarrow>
                                         a\<lparr>staging_target := Text (Target c),
                                           staging_version := Integer (Version c),
                                           staging_vars := opt_text (Vars c)\<rparr>)
                               else a) (apps s),
               round_trips := Suc (round_trips s)\<rparr>)
   \<and> Environment_string env \<in> {''production'', ''staging''}
   \<and> map fst (AppEnvChanged_values env c) =
       [Environment_string env @ ''_target'', Environment_string env @ ''_version'',
        Environment_string env @ ''_vars'']"
proof -
  assume ok: "fault s = None"
  have w: "Write_event s (AppEnvChanged ident env c) =
     (None, s\<lparr>apps := map (\<lambda>a. if sql_eq (apps_id a) (Text ident)
                               then set_columns (AppEnvChanged_values env c) a
                               else a) (apps s),
               round_trips := Suc (round_trips s)\<rparr>)"
    using ok by (simp add: Update_apps_def known_columns_AppEnvChanged round_trip_def)
  have e: "Environment_string env \<in> {''production'', ''staging''}"
    by (cases env) simp_all
  have n: "map fst (AppEnvChanged_values env c) =
       [Environment_string env @ ''_target'', Environment_string env @ ''_version'',
        Environment_string env @ ''_vars'']"
    by (simp add: AppEnvChanged_values_def)
  note w' = w [unfolded set_columns_AppEnvChanged]
  show ?thesis
    by (intro conjI) (rule w' e n)+
qed

theorem Write_event_AppEnvChanged_witness:
  "fault (example_store [example_app ''a1'' ''n1'' ''t1'' ''t2'', example_app ''a2'' ''n2'' ''t1'' ''t2''] []) = None
   \<and> apps (snd (Write_event
        (example_store [example_app ''a1'' ''n1'' ''t1'' ''t2'', example_app ''a2'' ''n2'' ''t1'' ''t2''] [])
        (AppEnvChanged ''a1'' Staging \<lparr>Target = ''t3'', Version = 1, Vars = None\<rparr>)))
     = [example_app ''a1'' ''n1'' ''t1'' ''t3'', example_app ''a2'' ''n2'' ''t1'' ''t2'']"
proof -
  let ?s = "example_store [example_app ''a1'' ''n1'' ''t1'' ''t2'', example_app ''a2'' ''n2'' ''t1'' ''t2''] []"
  have h: "fault ?s = None" by simp
  show ?thesis
    using Write_event_AppEnvChanged [OF h, of "''a1''" Staging "\<lparr>Target = ''t3'', Version = 1, Vars = None\<rparr>"]
    by (simp add: sql_eq_def opt_text_def)
qed

subsection \<open>Deletion, then lookup\<close>

lemma Delete_apps_ok:
  "Delete_apps s ident = (None, s') \<Longrightarrow>
   fault s = None \<and> fault s' = None \<and>
   apps s' = filter (\<lambda>a. \<not> sql_eq (apps_id a) (Text ident)) (apps s)"
  by (auto simp add: Delete_apps_def round_trip_def split: option.splits)

text \<open>
  C9. After \<open>Write\<close> has persisted an AppDeleted event, table \<open>apps\<close> is the table before
  without the rows of that id, no row has the id, and \<open>GetByID\<close> with the id fails with
  the not-found error.
\<close>

theorem Write_AppDeleted_then_GetByID:
  assumes "Write s [\<lparr>app_state = st, app_events = [AppDeleted ident]\<rparr>] = (None, s', evs)"
  shows "apps s' = filter (\<lambda>a. \<not> sql_eq (apps_id a) (Text ident)) (apps s)
       \<and> (\<forall>a\<in>set (apps s'). apps_id a \<noteq> Text ident)
       \<and> fst (GetByID s' ident) = Inl ErrNotFound"
proof -
  from assms have d: "Delete_apps s ident = (None, s')"
    using Write_single by fastforce
  then have f: "fault s' = None"
    and a: "apps s' = filter (\<lambda>a. \<not> sql_eq (apps_id a) (Text ident)) (apps s)"
    using Delete_apps_ok by blast+
  have none: "filter (\<lambda>a. sql_eq (apps_id a) (Text ident)) (apps s') = []"
    by (simp add: a filter_empty_conv)
  have g: "fst (GetByID s' ident) = Inl ErrNotFound"
    by (simp add: GetByID_def One_def f none)
  have "\<forall>a\<in>set (apps s'). apps_id a \<noteq> Text ident"
    by (auto simp add: a sql_eq_def)
  with a g show ?thesis by blast
qed

theorem Write_AppDeleted_then_GetByID_witness:
  "fst (Write (example_store [example_app ''a1'' ''n1'' ''t1'' ''t2'', example_app ''a2'' ''n2'' ''t1'' ''t2''] [])
          [\<lparr>app_state = example_app ''a1'' ''n1'' ''t1'' ''t2'', app_events = [AppDeleted ''a1'']\<rparr>]) = None
   \<and> fst (GetByID
        (fst (snd (Write (example_store [example_app ''a1'' ''n1'' ''t1'' ''t2'', example_app ''a2'' ''n2'' ''t1'' ''t2''] [])
          [\<lparr>app_state = example_app ''a1'' ''n1'' ''t1'' ''t2'', app_events = [AppDeleted ''a1'']\<rparr>])))
        ''a1'') = Inl ErrNotFound"
proof -
  let ?w = "Write (example_store [example_app ''a1'' ''n1'' ''t1'' ''t2'', example_app ''a2'' ''n2'' ''t1'' ''t2''] [])
          [\<lparr>app_state = example_app ''a1'' ''n1'' ''t1'' ''t2'', app_events = [AppDeleted ''a1'']\<rparr>]"
  have ok: "fst ?w = None"
    by (simp add: Write_def WriteAndDispatch_def Delete_apps_def)
  then have h: "?w = (None, fst (snd ?w), snd (snd ?w))"
    by (metis prod.collapse)
  show ?thesis
    using ok Write_AppDeleted_then_GetByID [OF h] by blast
qed

subsection \<open>Nothing to check\<close>

text \<open>
  C10. With both configurations absent, \<open>CheckAppNamingAvailabilityByID\<close> returns two
  zero-value requirements and a nil error for every id and every store, a failing engine
  included, and the store after the call is the store before: no round trip is made.
\<close>

theorem CheckAppNamingAvailabilityByID_nothing_to_check:
  "CheckAppNamingAvailabilityByID s ident None None = ((zero_requirement, zero_requirement, None), s)"
  by (simp add: CheckAppNamingAvailabilityByID_def)

end
